theory Spec2Isabelle
  imports Complex_Main
begin

section \<open>JavaScript numbers and values\<close>

text \<open>
  The source file \<^verbatim>\<open>src/index.js\<close> computes with JavaScript numbers, the IEEE 754
  doubles. A number is NaN, one of the two infinities, or a finite value; a finite value is
  embedded as the real it denotes. The comparisons, \<^verbatim>\<open>isNaN\<close>, \<^verbatim>\<open>Math.min\<close> and
  \<^verbatim>\<open>Math.max\<close> are exact on doubles, so everything the control flow of the fitting loop
  depends on is modelled exactly. The four arithmetic operations round, overflow and
  underflow: they are not fixed here but taken as a parameter, see \<open>arithmetic\<close> below.
\<close>

datatype jsnum = NaN | NInf | Fin real | PInf

fun isNaN :: "jsnum \<Rightarrow> bool" where
  "isNaN NaN = True"
| "isNaN _ = False"

text \<open>\<^verbatim>\<open>a <= b\<close> and \<^verbatim>\<open>a < b\<close>: false as soon as one side is NaN.\<close>

fun js_le :: "jsnum \<Rightarrow> jsnum \<Rightarrow> bool" where
  "js_le NaN _ = False"
| "js_le _ NaN = False"
| "js_le NInf _ = True"
| "js_le _ PInf = True"
| "js_le PInf _ = False"
| "js_le _ NInf = False"
| "js_le (Fin a) (Fin b) = (a \<le> b)"

fun js_lt :: "jsnum \<Rightarrow> jsnum \<Rightarrow> bool" where
  "js_lt NaN _ = False"
| "js_lt _ NaN = False"
| "js_lt PInf _ = False"
| "js_lt _ NInf = False"
| "js_lt NInf _ = True"
| "js_lt _ PInf = True"
| "js_lt (Fin a) (Fin b) = (a < b)"

text \<open>\<^verbatim>\<open>Math.max(a, b)\<close> and \<^verbatim>\<open>Math.min(a, b)\<close>: NaN as soon as one argument is NaN.\<close>

definition math_max :: "jsnum \<Rightarrow> jsnum \<Rightarrow> jsnum" where
  "math_max a b = (if isNaN a \<or> isNaN b then NaN else if js_le a b then b else a)"

definition math_min :: "jsnum \<Rightarrow> jsnum \<Rightarrow> jsnum" where
  "math_min a b = (if isNaN a \<or> isNaN b then NaN else if js_le a b then a else b)"

text \<open>
  \<^verbatim>\<open>Math.min.apply(null, xs)\<close> and \<^verbatim>\<open>Math.max.apply(null, xs)\<close>: the minimum and the
  maximum of all elements, \<^verbatim>\<open>Infinity\<close> and \<^verbatim>\<open>-Infinity\<close> on the empty array.
\<close>

definition math_min_apply :: "jsnum list \<Rightarrow> jsnum" where
  "math_min_apply xs = fold (\<lambda>x acc. math_min acc x) xs PInf"

definition math_max_apply :: "jsnum list \<Rightarrow> jsnum" where
  "math_max_apply xs = fold (\<lambda>x acc. math_max acc x) xs NInf"

text \<open>
  The arithmetic of the runtime: \<^verbatim>\<open>+\<close>, \<^verbatim>\<open>-\<close>, \<^verbatim>\<open>*\<close> and \<^verbatim>\<open>/\<close> on numbers. It
  is the argument \<open>A\<close> of every definition below that computes with numbers, and every
  theorem holds for any arithmetic, so for the rounding one of the doubles. The sign of a
  zero is not represented in \<open>jsnum\<close>; the one operation whose value depends on it is a
  division by a zero, and no theorem below depends on the result of such a division.
\<close>

record arithmetic =
  op_add :: "jsnum \<Rightarrow> jsnum \<Rightarrow> jsnum"
  op_sub :: "jsnum \<Rightarrow> jsnum \<Rightarrow> jsnum"
  op_mul :: "jsnum \<Rightarrow> jsnum \<Rightarrow> jsnum"
  op_div :: "jsnum \<Rightarrow> jsnum \<Rightarrow> jsnum"


text \<open>
  The values an option or a field of \<^verbatim>\<open>data\<close> can hold where the source tests it
  with \<^verbatim>\<open>!v\<close>, \<^verbatim>\<open>v || d\<close> or \<^verbatim>\<open>Array.isArray(v)\<close>: a missing property reads as
  \<^verbatim>\<open>undefined\<close>. Arrays hold numbers.
\<close>

datatype jsval =
    JUndefined
  | JNull
  | JBool bool
  | JNum jsnum
  | JStr string
  | JArr "jsnum list"

text \<open>Truthiness, as \<^verbatim>\<open>!v\<close> and \<^verbatim>\<open>v || d\<close> test it.\<close>

fun truthy :: "jsval \<Rightarrow> bool" where
  "truthy JUndefined = False"
| "truthy JNull = False"
| "truthy (JBool b) = b"
| "truthy (JNum n) = (\<not> isNaN n \<and> n \<noteq> Fin 0)"
| "truthy (JStr s) = (s \<noteq> [])"
| "truthy (JArr xs) = True"

fun isArray :: "jsval \<Rightarrow> bool" where
  "isArray (JArr xs) = True"
| "isArray _ = False"

text \<open>
  \<^verbatim>\<open>v.length\<close> of a truthy value: the length of an array or a string, \<^verbatim>\<open>undefined\<close>
  (here \<open>None\<close>) on a number or a boolean.
\<close>

fun js_length :: "jsval \<Rightarrow> nat option" where
  "js_length (JArr xs) = Some (length xs)"
| "js_length (JStr s) = Some (length s)"
| "js_length _ = None"

text \<open>
  \<^verbatim>\<open>new Array(n).fill(v)\<close>: \<open>n\<close> copies of \<open>v\<close>; with \<^verbatim>\<open>undefined\<close> for \<open>n\<close> the
  constructor builds the one-element array \<^verbatim>\<open>[undefined]\<close>, which \<^verbatim>\<open>fill\<close> overwrites.
\<close>

definition new_Array_fill :: "nat option \<Rightarrow> jsnum \<Rightarrow> jsnum list" where
  "new_Array_fill n v = replicate (case n of None \<Rightarrow> 1 | Some k \<Rightarrow> k) v"

text \<open>The elements of a value known to be an array.\<close>

fun elements :: "jsval \<Rightarrow> jsnum list" where
  "elements (JArr xs) = xs"
| "elements _ = []"

text \<open>
  Reading and writing an array of numbers by index. A read out of range is
  \<^verbatim>\<open>undefined\<close>, which \<^verbatim>\<open>Math.max\<close> and \<^verbatim>\<open>Math.min\<close> convert to NaN. A write at the
  length appends; a write beyond it would leave holes, which read as \<^verbatim>\<open>undefined\<close> too.
\<close>

definition arr_get :: "jsnum list \<Rightarrow> nat \<Rightarrow> jsnum" where
  "arr_get xs k = (if k < length xs then xs ! k else NaN)"

definition arr_set :: "jsnum list \<Rightarrow> nat \<Rightarrow> jsnum \<Rightarrow> jsnum list" where
  "arr_set xs k v =
     (if k < length xs then xs[k := v] else xs @ replicate (k - length xs) NaN @ [v])"

section \<open>The alignment of the model to the data\<close>

text \<open>A model: the function of the parameters that returns the function of \<open>x\<close>.\<close>

type_synonym model = "jsnum list \<Rightarrow> jsnum \<Rightarrow> jsnum"

text \<open>
  \<^verbatim>\<open>
  function getLinearParams(dataMin, dataMax, funMin, funMax) {
    const a = (dataMin - dataMax) / (funMin - funMax);
    const b = dataMax - (a * funMax);
    return [a, b];
  }
  \<close>
\<close>

definition getLinearParams ::
  "arithmetic \<Rightarrow> jsnum \<Rightarrow> jsnum \<Rightarrow> jsnum \<Rightarrow> jsnum \<Rightarrow> jsnum list" where
  "getLinearParams A dataMin dataMax funMin funMax =
     (let a = op_div A (op_sub A dataMin dataMax) (op_sub A funMin funMax);
          b = op_sub A dataMax (op_mul A a funMax)
      in [a, b])"

text \<open>
  \<^verbatim>\<open>
  function alignedFunction(f, dataMin, dataMax, toAlign) {
    const funMin = Math.min.apply(null, toAlign);
    const funMax = Math.max.apply(null, toAlign);
    const params = getLinearParams(dataMin, dataMax, funMin, funMax);
    const res = (paramsToFit) => (x) => {
      const originalRes = f(paramsToFit)(x);
      return params[0] * originalRes + params[1];
    };
    return res;
  }
  \<close>
\<close>

definition alignedFunction ::
  "arithmetic \<Rightarrow> model \<Rightarrow> jsnum \<Rightarrow> jsnum \<Rightarrow> jsnum list \<Rightarrow> model" where
  "alignedFunction A f dataMin dataMax toAlign =
     (let funMin = math_min_apply toAlign;
          funMax = math_max_apply toAlign;
          params = getLinearParams A dataMin dataMax funMin funMax
      in (\<lambda>paramsToFit x.
            let originalRes = f paramsToFit x
            in op_add A (op_mul A (params ! 0) originalRes) (params ! 1)))"

section \<open>The fitting procedure\<close>

text \<open>
  The two helpers \<^verbatim>\<open>errorCalculation(data, parameters, f)\<close> and
  \<^verbatim>\<open>step(data, parameters, damping, gradientDifference, f)\<close> are imported from other
  modules. The fitting procedure is modelled for any pair of them: they are arguments
  \<open>E\<close> and \<open>S\<close> of every definition below, taken to return without an exception and
  without changing their arguments. A model is taken to return a function of \<open>x\<close> alone,
  so that \<^verbatim>\<open>data.x.map\<close> applies it to each element.
\<close>

text \<open>
  The \<^verbatim>\<open>data\<close> argument with its properties \<^verbatim>\<open>x\<close> and \<^verbatim>\<open>y\<close>, and the
  \<^verbatim>\<open>parameterizedFunction\<close> argument: a function object, with its declared number of
  arguments \<^verbatim>\<open>length\<close>.
\<close>

record data =
  data_x :: jsval
  data_y :: jsval

record pfun =
  fn_length :: nat
  fn_apply :: model

type_synonym errorCalculation = "data \<Rightarrow> jsnum list \<Rightarrow> model \<Rightarrow> jsnum"

type_synonym step = "data \<Rightarrow> jsnum list \<Rightarrow> jsnum \<Rightarrow> jsnum \<Rightarrow> model \<Rightarrow> jsnum list"

text \<open>
  The \<^verbatim>\<open>options\<close> object. A numeric option that is absent is \<open>None\<close>, and the
  destructuring gives it its default. The bounds are an array or absent; a flag that is
  absent is \<open>False\<close>. The record is extensible, as the object is: a key the destructuring
  does not name is in the extension, and nothing reads it.
\<close>

record options =
  maxIterations :: "jsnum option"
  gradientDifference :: "jsnum option"
  damping :: "jsnum option"
  errorTolerance :: "jsnum option"
  minValues :: "jsnum list option"
  maxValues :: "jsnum list option"
  initialValues :: jsval
  alignToData :: bool
  logAfterIteration :: bool

text \<open>The messages of the six \<^verbatim>\<open>throw new Error(...)\<close> of the source, in its order.\<close>

datatype lm_error =
    DampingNotPositive
  | DataWithoutXY
  | DataNotArrays
  | DataSizeMismatch
  | BoundsSizeMismatch
  | InitialValuesNotArray

definition MAX_SAFE_INTEGER :: jsnum where
  "MAX_SAFE_INTEGER = Fin (2 ^ 53 - 1)"

definition MIN_SAFE_INTEGER :: jsnum where
  "MIN_SAFE_INTEGER = Fin (- (2 ^ 53 - 1))"

text \<open>
  The local variables that stay fixed during the loop, and those the loop changes. The
  value of \<^verbatim>\<open>console\<close> is what \<^verbatim>\<open>console.log\<close> has printed so far: one entry for
  each call, holding the error and the parameters that the call formats.
\<close>

record locals =
  var_data :: data
  var_f :: model
  var_maxIterations :: jsnum
  var_gradientDifference :: jsnum
  var_damping :: jsnum
  var_errorTolerance :: jsnum
  var_minValues :: "jsnum list"
  var_maxValues :: "jsnum list"
  var_alignToData :: bool
  var_logAfterIteration :: bool
  var_dataMin :: jsnum
  var_dataMax :: jsnum
  var_parLen :: nat

record lm_state =
  parameters :: "jsnum list"
  error :: jsnum
  converged :: bool
  iteration :: nat
  console :: "(jsnum \<times> jsnum list) list"

record fit_result =
  parameterValues :: "jsnum list"
  parameterError :: jsnum
  iterations :: nat

text \<open>
  Line 55: \<^verbatim>\<open>initialValues || new Array(parameterizedFunction.length).fill(1)\<close>, the
  option when it is truthy, else as many ones as the model declares arguments.
\<close>

definition start_parameters :: "pfun \<Rightarrow> 'a options_scheme \<Rightarrow> jsval" where
  "start_parameters f opts =
     (if truthy (initialValues opts) then initialValues opts
      else JArr (new_Array_fill (Some (fn_length f)) (Fin 1)))"

text \<open>
  Lines 23 to 71 of \<^verbatim>\<open>levenbergMarquardt\<close>: the defaults of the options, the checks
  in the order of the source, the default parameters and bounds, the first error.
\<close>

definition lm_init ::
  "errorCalculation \<Rightarrow> data \<Rightarrow> pfun \<Rightarrow> 'a options_scheme \<Rightarrow> lm_error + locals \<times> lm_state" where
  "lm_init E d f opts =
     (let maxIt = (case maxIterations opts of None \<Rightarrow> Fin 100 | Some v \<Rightarrow> v);
          gradDiff = (case gradientDifference opts of None \<Rightarrow> Fin (1 / 10) | Some v \<Rightarrow> v);
          damp = (case damping opts of None \<Rightarrow> Fin 0 | Some v \<Rightarrow> v);
          errTol = (case errorTolerance opts of None \<Rightarrow> Fin (1 / 100) | Some v \<Rightarrow> v)
      in
      if js_le damp (Fin 0) then Inl DampingNotPositive
      else if \<not> truthy (data_x d) \<or> \<not> truthy (data_y d) then Inl DataWithoutXY
      else if \<not> isArray (data_x d) \<or> length (elements (data_x d)) < 2 \<or>
              \<not> isArray (data_y d) \<or> length (elements (data_y d)) < 2
        then Inl DataNotArrays
      else if length (elements (data_x d)) \<noteq> length (elements (data_y d))
        then Inl DataSizeMismatch
      else
        let dMin = math_min_apply (elements (data_y d));
            dMax = math_max_apply (elements (data_y d));
            params = start_parameters f opts;
            parLen = js_length params;
            maxV = (case maxValues opts of None \<Rightarrow> new_Array_fill parLen MAX_SAFE_INTEGER
                    | Some v \<Rightarrow> v);
            minV = (case minValues opts of None \<Rightarrow> new_Array_fill parLen MIN_SAFE_INTEGER
                    | Some v \<Rightarrow> v)
        in
        if length maxV \<noteq> length minV then Inl BoundsSizeMismatch
        else if \<not> isArray params then Inl InitialValuesNotArray
        else
          let err = E d (elements params) (fn_apply f)
          in Inr (\<lparr>var_data = d, var_f = fn_apply f, var_maxIterations = maxIt,
                    var_gradientDifference = gradDiff, var_damping = damp,
                    var_errorTolerance = errTol, var_minValues = minV, var_maxValues = maxV,
                    var_alignToData = alignToData opts,
                    var_logAfterIteration = logAfterIteration opts,
                    var_dataMin = dMin, var_dataMax = dMax,
                    var_parLen = length (elements params)\<rparr>,
                  \<lparr>parameters = elements params, error = err,
                    converged = js_le err errTol, iteration = 0, console = []\<rparr>))"

text \<open>
  Lines 93 to 98, the clamp of the parameters:
  \<^verbatim>\<open>
  for (let k = 0; k < parLen; k++) {
    parameters[k] = Math.min(Math.max(minValues[k], parameters[k]), maxValues[k]);
  }
  \<close>
\<close>

definition clamp_at :: "jsnum list \<Rightarrow> jsnum list \<Rightarrow> nat \<Rightarrow> jsnum list \<Rightarrow> jsnum list" where
  "clamp_at minV maxV k ps =
     arr_set ps k (math_min (math_max (arr_get minV k) (arr_get ps k)) (arr_get maxV k))"

definition clamp_parameters :: "nat \<Rightarrow> jsnum list \<Rightarrow> jsnum list \<Rightarrow> jsnum list \<Rightarrow> jsnum list" where
  "clamp_parameters parLen minV maxV ps = fold (clamp_at minV maxV) [0..<parLen] ps"

text \<open>
  The model that a pass of the loop fits (lines 79 to 83): the aligned one when
  \<^verbatim>\<open>alignToData\<close> is set, built from the values of the model at the current parameters.
\<close>

definition alignedFun :: "arithmetic \<Rightarrow> locals \<Rightarrow> jsnum list \<Rightarrow> model" where
  "alignedFun A env ps =
     (if var_alignToData env
      then (let toAlign = map (var_f env ps) (elements (data_x (var_data env)))
            in alignedFunction A (var_f env) (var_dataMin env) (var_dataMax env) toAlign)
      else var_f env)"

text \<open>
  Lines 79 to 100 of a pass: the step from the current parameters, the clamp, and the
  error of the clamped parameters under the model of this pass.
\<close>

definition lm_update ::
  "arithmetic \<Rightarrow> errorCalculation \<Rightarrow> step \<Rightarrow> locals \<Rightarrow> jsnum list \<Rightarrow> jsnum list \<times> jsnum" where
  "lm_update A E S env ps =
     (let af = alignedFun A env ps;
          stepped = S (var_data env) ps (var_damping env) (var_gradientDifference env) af;
          clamped = clamp_parameters (var_parLen env) (var_minValues env) (var_maxValues env)
                      stepped
      in (clamped, E (var_data env) clamped af))"

text \<open>
  One pass of the loop body, lines 78 to 105. The flag returned is \<open>True\<close> when the pass
  leaves the loop by \<^verbatim>\<open>break\<close>.
\<close>

definition lm_body ::
  "arithmetic \<Rightarrow> errorCalculation \<Rightarrow> step \<Rightarrow> locals \<Rightarrow> lm_state \<Rightarrow> bool \<times> lm_state" where
  "lm_body A E S env s =
     (let (clamped, err) = lm_update A E S env (parameters s)
      in
      if isNaN err then (True, s\<lparr>parameters := clamped, error := err\<rparr>)
      else (False,
            s\<lparr>parameters := clamped, error := err,
              console := (if var_logAfterIteration env then console s @ [(err, clamped)]
                          else console s),
              converged := js_le err (var_errorTolerance env)\<rparr>))"

text \<open>The test of the loop, line 75: \<^verbatim>\<open>iteration < maxIterations && !converged\<close>.\<close>

definition running :: "locals \<Rightarrow> lm_state \<Rightarrow> bool" where
  "running env s = (js_lt (Fin (real (iteration s))) (var_maxIterations env) \<and> \<not> converged s)"

text \<open>
  The loop, lines 73 to 106. It need not end, as with \<^verbatim>\<open>maxIterations = Infinity\<close> and
  an error that never reaches the tolerance: the result is then \<open>None\<close>, and no theorem
  below says that the loop ends. The counter is a natural number, which is the counter of
  the source in every run of fewer than \<open>2 ^ 53\<close> passes.
\<close>

partial_function (option) lm_loop ::
  "arithmetic \<Rightarrow> errorCalculation \<Rightarrow> step \<Rightarrow> locals \<Rightarrow> lm_state \<Rightarrow> lm_state option" where
  "lm_loop A E S env s =
     (if running env s
      then (let r = lm_body A E S env s
            in if fst r then Some (snd r)
               else lm_loop A E S env ((snd r)\<lparr>iteration := Suc (iteration (snd r))\<rparr>))
      else Some s)"

text \<open>
  \<^verbatim>\<open>levenbergMarquardt(data, parameterizedFunction, options)\<close>: a thrown error is
  \<open>Some (Inl e)\<close>, a returned object \<open>Some (Inr (result, printed))\<close> with what the console
  has received, and a loop that does not end is \<open>None\<close>.
\<close>

definition levenbergMarquardt ::
  "arithmetic \<Rightarrow> errorCalculation \<Rightarrow> step \<Rightarrow> data \<Rightarrow> pfun \<Rightarrow> 'a options_scheme \<Rightarrow>
     (lm_error + fit_result \<times> (jsnum \<times> jsnum list) list) option" where
  "levenbergMarquardt A E S d f opts =
     (case lm_init E d f opts of
        Inl e \<Rightarrow> Some (Inl e)
      | Inr (env, s0) \<Rightarrow>
          (case lm_loop A E S env s0 of
             None \<Rightarrow> None
           | Some s \<Rightarrow>
               Some (Inr (\<lparr>parameterValues = parameters s, parameterError = error s,
                            iterations = iteration s\<rparr>, console s))))"

section \<open>Passes of the loop\<close>

text \<open>
  \<open>lm_head A E S env n s\<close> is the state in which the loop started in \<open>s\<close> evaluates its test
  for the time \<open>n + 1\<close>, after \<open>n\<close> passes that ended without \<^verbatim>\<open>break\<close> and the
  increments of the counter; it is \<open>None\<close> when the loop has ended before. The pass with
  0-based index \<open>n\<close> is the one that starts there.
\<close>

fun lm_head ::
  "arithmetic \<Rightarrow> errorCalculation \<Rightarrow> step \<Rightarrow> locals \<Rightarrow> nat \<Rightarrow> lm_state \<Rightarrow> lm_state option" where
  "lm_head A E S env 0 s = Some s"
| "lm_head A E S env (Suc n) s =
     (case lm_head A E S env n s of
        None \<Rightarrow> None
      | Some h \<Rightarrow>
          (if running env h \<and> \<not> fst (lm_body A E S env h)
           then Some ((snd (lm_body A E S env h))\<lparr>iteration := Suc (iteration h)\<rparr>)
           else None))"

section \<open>Inputs for concrete runs\<close>

text \<open>
  An arithmetic to run the procedure on concrete inputs: the operations of the reals on
  finite operands, and those of IEEE 754 on NaN and the infinities. It gives what the
  doubles give wherever the operands and the exact result are doubles and no zero
  divides. The fitting loop computes with the arithmetic only when \<^verbatim>\<open>alignToData\<close> is
  set; the two runs of the alignment below name operands for which this holds.
\<close>

fun exact_neg :: "jsnum \<Rightarrow> jsnum" where
  "exact_neg NaN = NaN"
| "exact_neg NInf = PInf"
| "exact_neg PInf = NInf"
| "exact_neg (Fin a) = Fin (- a)"

fun exact_add :: "jsnum \<Rightarrow> jsnum \<Rightarrow> jsnum" where
  "exact_add NaN _ = NaN"
| "exact_add _ NaN = NaN"
| "exact_add PInf NInf = NaN"
| "exact_add NInf PInf = NaN"
| "exact_add PInf _ = PInf"
| "exact_add _ PInf = PInf"
| "exact_add NInf _ = NInf"
| "exact_add _ NInf = NInf"
| "exact_add (Fin a) (Fin b) = Fin (a + b)"

definition exact_sub :: "jsnum \<Rightarrow> jsnum \<Rightarrow> jsnum" where
  "exact_sub a b = exact_add a (exact_neg b)"

text \<open>The sign of a product or quotient with an infinite operand.\<close>

definition signed_inf :: "bool \<Rightarrow> jsnum" where
  "signed_inf negative = (if negative then NInf else PInf)"

fun exact_mul :: "jsnum \<Rightarrow> jsnum \<Rightarrow> jsnum" where
  "exact_mul NaN _ = NaN"
| "exact_mul _ NaN = NaN"
| "exact_mul (Fin a) (Fin b) = Fin (a * b)"
| "exact_mul (Fin a) PInf = (if a = 0 then NaN else signed_inf (a < 0))"
| "exact_mul (Fin a) NInf = (if a = 0 then NaN else signed_inf (0 < a))"
| "exact_mul PInf (Fin b) = (if b = 0 then NaN else signed_inf (b < 0))"
| "exact_mul NInf (Fin b) = (if b = 0 then NaN else signed_inf (0 < b))"
| "exact_mul PInf PInf = PInf"
| "exact_mul NInf NInf = PInf"
| "exact_mul PInf NInf = NInf"
| "exact_mul NInf PInf = NInf"

text \<open>Division; a zero divisor is taken as \<^verbatim>\<open>+0\<close>.\<close>

fun exact_div :: "jsnum \<Rightarrow> jsnum \<Rightarrow> jsnum" where
  "exact_div NaN _ = NaN"
| "exact_div _ NaN = NaN"
| "exact_div (Fin a) (Fin b) =
     (if b \<noteq> 0 then Fin (a / b) else if a = 0 then NaN else signed_inf (a < 0))"
| "exact_div (Fin a) PInf = Fin 0"
| "exact_div (Fin a) NInf = Fin 0"
| "exact_div PInf (Fin b) = signed_inf (b < 0)"
| "exact_div NInf (Fin b) = signed_inf (0 \<le> b)"
| "exact_div PInf PInf = NaN"
| "exact_div PInf NInf = NaN"
| "exact_div NInf PInf = NaN"
| "exact_div NInf NInf = NaN"

definition exact_arithmetic :: arithmetic where
  "exact_arithmetic = \<lparr>op_add = exact_add, op_sub = exact_sub, op_mul = exact_mul, op_div = exact_div\<rparr>"

text \<open>
  Stand-ins for the two imported helpers, to run the procedure on concrete inputs: an
  error that is the first parameter, and a step that multiplies every parameter by the
  damping.
\<close>

definition first_parameter :: errorCalculation where
  "first_parameter d ps m = arr_get ps 0"

definition scale_step :: step where
  "scale_step d ps dm gd m = map (\<lambda>p. exact_mul p dm) ps"

text \<open>Two points on the line \<open>y = 0\<close>, and the model of a constant.\<close>

definition two_points :: data where
  "two_points = \<lparr>data_x = JArr [Fin 0, Fin 1], data_y = JArr [Fin 0, Fin 0]\<rparr>"

definition constant_model :: pfun where
  "constant_model = \<lparr>fn_length = 1, fn_apply = (\<lambda>ps x. arr_get ps 0)\<rparr>"

text \<open>The options with the damping alone, which has no default that passes the check.\<close>

definition damping_only :: "jsnum \<Rightarrow> options" where
  "damping_only dm =
     \<lparr>maxIterations = None, gradientDifference = None, damping = Some dm,
       errorTolerance = None, minValues = None, maxValues = None,
       initialValues = JUndefined, alignToData = False, logAfterIteration = False\<rparr>"




section \<open>The loop and its head states\<close>

lemma lm_body_iteration: "iteration (snd (lm_body A E S env s)) = iteration s"
  by (simp add: lm_body_def Let_def split: prod.splits)

lemma lm_loop_stop: "\<not> running env s \<Longrightarrow> lm_loop A E S env s = Some s"
  by (subst lm_loop.simps) simp

lemma lm_loop_break:
  "running env s \<Longrightarrow> fst (lm_body A E S env s) \<Longrightarrow> lm_loop A E S env s = Some (snd (lm_body A E S env s))"
  by (subst lm_loop.simps) (simp add: Let_def)

lemma lm_loop_continue:
  "running env s \<Longrightarrow> \<not> fst (lm_body A E S env s) \<Longrightarrow>
   lm_loop A E S env s = lm_loop A E S env ((snd (lm_body A E S env s))\<lparr>iteration := Suc (iteration s)\<rparr>)"
  by (subst lm_loop.simps) (simp add: Let_def lm_body_iteration)

lemma lm_loop_head: "lm_head A E S env n s = Some h \<Longrightarrow> lm_loop A E S env s = lm_loop A E S env h"
proof (induction n arbitrary: h)
  case 0
  then show ?case by simp
next
  case (Suc n)
  then show ?case
    by (auto split: option.splits if_splits simp: lm_loop_continue)
qed

lemma lm_head_iteration: "lm_head A E S env n s = Some h \<Longrightarrow> iteration h = iteration s + n"
  by (induction n arbitrary: h) (auto split: option.splits if_splits)

text \<open>The first pass taken off instead of the last.\<close>

lemma lm_head_Suc_first:
  "lm_head A E S env (Suc n) s =
     (if running env s \<and> \<not> fst (lm_body A E S env s)
      then lm_head A E S env n ((snd (lm_body A E S env s))\<lparr>iteration := Suc (iteration s)\<rparr>)
      else None)"
proof (induction n)
  case 0
  show ?case by simp
next
  case (Suc n)
  have "lm_head A E S env (Suc (Suc n)) s =
     (case lm_head A E S env (Suc n) s of
        None \<Rightarrow> None
      | Some h \<Rightarrow>
          (if running env h \<and> \<not> fst (lm_body A E S env h)
           then Some ((snd (lm_body A E S env h))\<lparr>iteration := Suc (iteration h)\<rparr>)
           else None))"
    by (rule lm_head.simps(2))
  also have "\<dots> = (if running env s \<and> \<not> fst (lm_body A E S env s)
      then lm_head A E S env (Suc n) ((snd (lm_body A E S env s))\<lparr>iteration := Suc (iteration s)\<rparr>)
      else None)"
    unfolding Suc.IH by simp
  finally show ?case .
qed

text \<open>
  Every result of the loop is read off a head state: the test fails there, or the pass
  that starts there breaks.
\<close>

lemma lm_loop_result:
  assumes "lm_loop A E S env s = Some t"
  shows "\<exists>n h. lm_head A E S env n s = Some h \<and>
           ((\<not> running env h \<and> t = h) \<or>
            (running env h \<and> fst (lm_body A E S env h) \<and> t = snd (lm_body A E S env h)))"
proof -
  let ?P = "\<lambda>A E S env s t. \<exists>n h. lm_head A E S env n s = Some h \<and>
           ((\<not> running env h \<and> t = h) \<or>
            (running env h \<and> fst (lm_body A E S env h) \<and> t = snd (lm_body A E S env h)))"
  have "?P A E S env s t"
  proof (rule lm_loop.raw_induct[where P = ?P, OF _ assms])
    fix loop ::
      "arithmetic \<Rightarrow> errorCalculation \<Rightarrow> step \<Rightarrow> locals \<Rightarrow> lm_state \<Rightarrow> lm_state option"
    fix A E S env s t
    assume IH: "\<And>A E S env s t. loop A E S env s = Some t \<Longrightarrow> ?P A E S env s t"
    assume eq: "(if running env s
        then let r = lm_body A E S env s
             in if fst r then Some (snd r)
                else loop A E S env (snd r\<lparr>iteration := Suc (iteration (snd r))\<rparr>)
        else Some s) = Some t"
    show "?P A E S env s t"
    proof (cases "running env s")
      case False
      with eq have "t = s" by simp
      with False have "lm_head A E S env 0 s = Some s \<and> \<not> running env s \<and> t = s" by simp
      then show ?thesis by blast
    next
      case True
      show ?thesis
      proof (cases "fst (lm_body A E S env s)")
        case brk: True
        with True eq have "t = snd (lm_body A E S env s)" by (simp add: Let_def)
        with True brk have "lm_head A E S env 0 s = Some s \<and> running env s \<and>
           fst (lm_body A E S env s) \<and> t = snd (lm_body A E S env s)" by simp
        then show ?thesis by blast
      next
        case cont: False
        let ?s' = "(snd (lm_body A E S env s))\<lparr>iteration := Suc (iteration s)\<rparr>"
        from True cont eq have "loop A E S env ?s' = Some t"
          by (simp add: Let_def lm_body_iteration)
        from IH[OF this] obtain n h where
          h: "lm_head A E S env n ?s' = Some h" and
          r: "(\<not> running env h \<and> t = h) \<or>
              (running env h \<and> fst (lm_body A E S env h) \<and> t = snd (lm_body A E S env h))"
          by blast
        from h True cont have "lm_head A E S env (Suc n) s = Some h"
          by (simp only: lm_head_Suc_first) simp
        with r show ?thesis by blast
      qed
    qed
  qed
  then show ?thesis .
qed

lemma lm_body_nan:
  "lm_update A E S env (parameters h) = (ps, e) \<Longrightarrow> isNaN e \<Longrightarrow>
   lm_body A E S env h = (True, h\<lparr>parameters := ps, error := e\<rparr>)"
  by (simp add: lm_body_def)

lemma lm_body_number:
  "lm_update A E S env (parameters h) = (ps, e) \<Longrightarrow> \<not> isNaN e \<Longrightarrow>
   lm_body A E S env h =
     (False, h\<lparr>parameters := ps, error := e,
               console := (if var_logAfterIteration env then console h @ [(e, ps)]
                           else console h),
               converged := js_le e (var_errorTolerance env)\<rparr>)"
  by (simp add: lm_body_def)

lemma js_le_not_NaN: "js_le a b \<Longrightarrow> \<not> isNaN a"
  by (cases a) auto

lemma isNaN_eq: "isNaN a \<longleftrightarrow> a = NaN"
  by (cases a) auto

lemma isArray_length: "isArray v \<Longrightarrow> js_length v = Some (length (elements v))"
  by (cases v) auto

section \<open>The start of the procedure\<close>

text \<open>What a start without a thrown error leaves in the variables.\<close>

lemma lm_init_Inr:
  assumes "lm_init E d f opts = Inr (env, s0)"
  shows "isArray (start_parameters f opts)"
    and "s0 = \<lparr>parameters = elements (start_parameters f opts),
               error = E d (elements (start_parameters f opts)) (fn_apply f),
               converged = js_le (E d (elements (start_parameters f opts)) (fn_apply f))
                             (case errorTolerance opts of None \<Rightarrow> Fin (1 / 100) | Some v \<Rightarrow> v),
               iteration = 0, console = []\<rparr>"
    and "env = \<lparr>var_data = d, var_f = fn_apply f,
                var_maxIterations = (case maxIterations opts of None \<Rightarrow> Fin 100 | Some v \<Rightarrow> v),
                var_gradientDifference =
                  (case gradientDifference opts of None \<Rightarrow> Fin (1 / 10) | Some v \<Rightarrow> v),
                var_damping = (case damping opts of None \<Rightarrow> Fin 0 | Some v \<Rightarrow> v),
                var_errorTolerance =
                  (case errorTolerance opts of None \<Rightarrow> Fin (1 / 100) | Some v \<Rightarrow> v),
                var_minValues =
                  (case minValues opts of
                     None \<Rightarrow> new_Array_fill (js_length (start_parameters f opts)) MIN_SAFE_INTEGER
                   | Some v \<Rightarrow> v),
                var_maxValues =
                  (case maxValues opts of
                     None \<Rightarrow> new_Array_fill (js_length (start_parameters f opts)) MAX_SAFE_INTEGER
                   | Some v \<Rightarrow> v),
                var_alignToData = alignToData opts,
                var_logAfterIteration = logAfterIteration opts,
                var_dataMin = math_min_apply (elements (data_y d)),
                var_dataMax = math_max_apply (elements (data_y d)),
                var_parLen = length (elements (start_parameters f opts))\<rparr>"
  using assms unfolding lm_init_def Let_def
  by (simp_all split: if_splits)

lemma elements_start_parameters:
  "elements (start_parameters f opts) =
     (if truthy (initialValues opts) then elements (initialValues opts)
      else replicate (fn_length f) (Fin 1))"
  by (simp add: start_parameters_def new_Array_fill_def)

lemma lm_init_state:
  assumes "lm_init E d f opts = Inr (env, s0)"
  shows "iteration s0 = 0" and "console s0 = []"
    and "converged s0 = js_le (error s0) (var_errorTolerance env)"
    and "error s0 = E d (parameters s0) (fn_apply f)"
    and "parameters s0 = (if truthy (initialValues opts) then elements (initialValues opts)
                          else replicate (fn_length f) (Fin 1))"
  unfolding lm_init_Inr(2)[OF assms] lm_init_Inr(3)[OF assms]
  by (simp_all add: elements_start_parameters)

lemma lm_init_locals:
  assumes "lm_init E d f opts = Inr (env, s0)"
  shows "var_errorTolerance env = (case errorTolerance opts of None \<Rightarrow> Fin (1 / 100) | Some v \<Rightarrow> v)"
    and "var_maxIterations env = (case maxIterations opts of None \<Rightarrow> Fin 100 | Some v \<Rightarrow> v)"
    and "var_logAfterIteration env = logAfterIteration opts"
    and "var_parLen env = length (parameters s0)"
    and "var_data env = d" and "var_f env = fn_apply f"
    and "var_damping env = (case damping opts of None \<Rightarrow> Fin 0 | Some v \<Rightarrow> v)"
    and "var_gradientDifference env =
           (case gradientDifference opts of None \<Rightarrow> Fin (1 / 10) | Some v \<Rightarrow> v)"
    and "var_alignToData env = alignToData opts"
    and "var_dataMin env = math_min_apply (elements (data_y d))"
    and "var_dataMax env = math_max_apply (elements (data_y d))"
  unfolding lm_init_Inr(2)[OF assms] lm_init_Inr(3)[OF assms]
  by simp_all

lemma lm_init_bounds:
  assumes "lm_init E d f opts = Inr (env, s0)"
  shows "var_minValues env =
           (case minValues opts of None \<Rightarrow> replicate (length (parameters s0)) MIN_SAFE_INTEGER
            | Some v \<Rightarrow> v)"
    and "var_maxValues env =
           (case maxValues opts of None \<Rightarrow> replicate (length (parameters s0)) MAX_SAFE_INTEGER
            | Some v \<Rightarrow> v)"
    and "length (var_minValues env) = length (var_maxValues env)"
proof -
  have l: "js_length (start_parameters f opts) = Some (length (elements (start_parameters f opts)))"
    using lm_init_Inr(1)[OF assms] by (rule isArray_length)
  show "var_minValues env =
           (case minValues opts of None \<Rightarrow> replicate (length (parameters s0)) MIN_SAFE_INTEGER
            | Some v \<Rightarrow> v)"
    unfolding lm_init_Inr(2)[OF assms] lm_init_Inr(3)[OF assms]
    by (cases "minValues opts") (simp_all add: l new_Array_fill_def)
  show "var_maxValues env =
           (case maxValues opts of None \<Rightarrow> replicate (length (parameters s0)) MAX_SAFE_INTEGER
            | Some v \<Rightarrow> v)"
    unfolding lm_init_Inr(2)[OF assms] lm_init_Inr(3)[OF assms]
    by (cases "maxValues opts") (simp_all add: l new_Array_fill_def)
  show "length (var_minValues env) = length (var_maxValues env)"
    using assms unfolding lm_init_Inr(3)[OF assms] lm_init_def Let_def
    by (simp split: if_splits)
qed

text \<open>The result of the whole procedure, from the head state where the loop ends.\<close>

lemma lm_ends_at_test:
  assumes "lm_init E d f opts = Inr (env, s0)"
    and "lm_head A E S env n s0 = Some h" and "\<not> running env h"
  shows "levenbergMarquardt A E S d f opts =
           Some (Inr (\<lparr>parameterValues = parameters h, parameterError = error h,
                        iterations = n\<rparr>, console h))"
proof -
  have "lm_loop A E S env s0 = Some h"
    using lm_loop_head[OF assms(2)] lm_loop_stop[OF assms(3)] by simp
  moreover have "iteration h = n"
    using lm_head_iteration[OF assms(2)] lm_init_state(1)[OF assms(1)] by simp
  ultimately show ?thesis
    using assms(1) by (simp add: levenbergMarquardt_def)
qed

lemma lm_ends_at_break:
  assumes "lm_init E d f opts = Inr (env, s0)"
    and "lm_head A E S env n s0 = Some h" and "running env h"
    and "lm_update A E S env (parameters h) = (ps, e)" and "isNaN e"
  shows "levenbergMarquardt A E S d f opts =
           Some (Inr (\<lparr>parameterValues = ps, parameterError = e, iterations = n\<rparr>, console h))"
proof -
  have b: "lm_body A E S env h = (True, h\<lparr>parameters := ps, error := e\<rparr>)"
    using assms(4,5) by (rule lm_body_nan)
  have "lm_loop A E S env s0 = Some (h\<lparr>parameters := ps, error := e\<rparr>)"
    using lm_loop_head[OF assms(2)] lm_loop_break[OF assms(3), of A E S] b by simp
  moreover have "iteration h = n"
    using lm_head_iteration[OF assms(2)] lm_init_state(1)[OF assms(1)] by simp
  ultimately show ?thesis
    using assms(1) by (simp add: levenbergMarquardt_def)
qed

lemma lm_head_next:
  assumes "lm_head A E S env n s0 = Some h" and "running env h"
    and "lm_update A E S env (parameters h) = (ps, e)" and "\<not> isNaN e"
  shows "lm_head A E S env (Suc n) s0 =
     Some (h\<lparr>parameters := ps, error := e,
               console := (if var_logAfterIteration env then console h @ [(e, ps)]
                           else console h),
               converged := js_le e (var_errorTolerance env),
               iteration := Suc (iteration h)\<rparr>)"
  using assms(1,2) lm_body_number[OF assms(3,4)] by simp

text \<open>A pass under a finite cap leaves the counter at most at the cap rounded up.\<close>

lemma running_Fin:
  assumes "var_maxIterations env = Fin r" and "running env s"
  shows "Suc (iteration s) \<le> nat \<lceil>r\<rceil>"
proof -
  from assms have "real (iteration s) < r" by (simp add: running_def)
  also have "r \<le> of_int \<lceil>r\<rceil>" by (rule le_of_int_ceiling)
  finally have "int (iteration s) < \<lceil>r\<rceil>" by simp
  then show ?thesis by linarith
qed

lemma lm_head_bound:
  assumes "var_maxIterations env = Fin r"
  shows "lm_head A E S env n s = Some h \<Longrightarrow> iteration s \<le> nat \<lceil>r\<rceil> \<Longrightarrow> iteration h \<le> nat \<lceil>r\<rceil>"
proof (induction n arbitrary: h)
  case 0
  then show ?case by simp
next
  case (Suc n)
  from Suc.prems(1) obtain h' where h': "lm_head A E S env n s = Some h'"
    and r: "running env h'" and h: "iteration h = Suc (iteration h')"
    by (auto split: option.splits if_splits)
  from running_Fin[OF assms r] h show ?case by simp
qed

text \<open>The definitions that a concrete run unfolds.\<close>

lemmas ex_defs = Let_def lm_update_def clamp_parameters_def clamp_at_def alignedFun_def
  arr_get_def arr_set_def math_min_def math_max_def math_min_apply_def math_max_apply_def
  MAX_SAFE_INTEGER_def MIN_SAFE_INTEGER_def signed_inf_def
  first_parameter_def scale_step_def two_points_def constant_model_def damping_only_def

lemmas init_defs = lm_init_def start_parameters_def new_Array_fill_def

section \<open>Convergence\<close>

text \<open>
  C1. The first error is computed from \<^verbatim>\<open>initialValues\<close>, or from the vector of ones
  of the length the model declares. When it is at most \<^verbatim>\<open>errorTolerance\<close>, the result
  has these parameters and this error, and \<open>iterations = 0\<close>: no update is applied. When
  the pass with index \<open>i\<close> recomputes an error that is at most \<^verbatim>\<open>errorTolerance\<close>, the
  loop ends right after it: the result has the parameters and the error of this pass, and
  \<open>iterations = i + 1\<close>.
\<close>

theorem converged_stops_loop:
  assumes "lm_init E d f opts = Inr (env, s0)"
  shows "parameters s0 = (if truthy (initialValues opts) then elements (initialValues opts)
                          else replicate (fn_length f) (Fin 1)) \<and>
         error s0 = E d (parameters s0) (fn_apply f) \<and>
         var_errorTolerance env =
           (case errorTolerance opts of None \<Rightarrow> Fin (1 / 100) | Some v \<Rightarrow> v) \<and>
         (js_le (error s0) (var_errorTolerance env) \<longrightarrow>
            levenbergMarquardt A E S d f opts =
              Some (Inr (\<lparr>parameterValues = parameters s0, parameterError = error s0,
                           iterations = 0\<rparr>, []))) \<and>
         (\<forall>i h ps e.
            lm_head A E S env i s0 = Some h \<and> running env h \<and>
            lm_update A E S env (parameters h) = (ps, e) \<and> js_le e (var_errorTolerance env) \<longrightarrow>
            levenbergMarquardt A E S d f opts =
              Some (Inr (\<lparr>parameterValues = ps, parameterError = e, iterations = Suc i\<rparr>,
                         if logAfterIteration opts then console h @ [(e, ps)] else console h)))"
proof (intro conjI allI impI)
  show "parameters s0 = (if truthy (initialValues opts) then elements (initialValues opts)
                          else replicate (fn_length f) (Fin 1))"
    by (rule lm_init_state(5)[OF assms])
  show "error s0 = E d (parameters s0) (fn_apply f)"
    by (rule lm_init_state(4)[OF assms])
  show "var_errorTolerance env =
           (case errorTolerance opts of None \<Rightarrow> Fin (1 / 100) | Some v \<Rightarrow> v)"
    by (rule lm_init_locals(1)[OF assms])
next
  assume "js_le (error s0) (var_errorTolerance env)"
  then have "\<not> running env s0"
    using lm_init_state(3)[OF assms] by (simp add: running_def)
  from lm_ends_at_test[OF assms _ this, of A S 0]
  show "levenbergMarquardt A E S d f opts =
      Some (Inr (\<lparr>parameterValues = parameters s0, parameterError = error s0,
                   iterations = 0\<rparr>, []))"
    using lm_init_state(2)[OF assms] by simp
next
  fix i h ps e
  assume a: "lm_head A E S env i s0 = Some h \<and> running env h \<and>
            lm_update A E S env (parameters h) = (ps, e) \<and> js_le e (var_errorTolerance env)"
  then have nn: "\<not> isNaN e" by (blast dest: js_le_not_NaN)
  let ?h' = "h\<lparr>parameters := ps, error := e,
               console := (if var_logAfterIteration env then console h @ [(e, ps)]
                           else console h),
               converged := js_le e (var_errorTolerance env),
               iteration := Suc (iteration h)\<rparr>"
  have hd: "lm_head A E S env (Suc i) s0 = Some ?h'"
    using a nn by (intro lm_head_next) auto
  have "\<not> running env ?h'" using a by (simp add: running_def)
  from lm_ends_at_test[OF assms hd this]
  show "levenbergMarquardt A E S d f opts =
      Some (Inr (\<lparr>parameterValues = ps, parameterError = e, iterations = Suc i\<rparr>,
                 if logAfterIteration opts then console h @ [(e, ps)] else console h))"
    using lm_init_locals(3)[OF assms] by simp
qed

theorem converged_stops_loop_witness:
  "levenbergMarquardt exact_arithmetic first_parameter scale_step two_points constant_model
     ((damping_only (Fin (1 / 100)))\<lparr>initialValues := JArr [Fin 0]\<rparr>) =
     Some (Inr (\<lparr>parameterValues = [Fin 0], parameterError = Fin 0, iterations = 0\<rparr>, [])) \<and>
   levenbergMarquardt exact_arithmetic first_parameter scale_step two_points constant_model
     ((damping_only (Fin (1 / 100)))\<lparr>initialValues := JArr [Fin 2]\<rparr>) =
     Some (Inr (\<lparr>parameterValues = [Fin (1 / 5000)], parameterError = Fin (1 / 5000),
                  iterations = 2\<rparr>, []))"
proof
  let ?A = exact_arithmetic and ?E = first_parameter and ?S = scale_step
  let ?o = "(damping_only (Fin (1 / 100)))\<lparr>initialValues := JArr [Fin 0]\<rparr>"
  obtain env s0 where i: "lm_init ?E two_points constant_model ?o = Inr (env, s0)"
    by (simp add: init_defs ex_defs)
  note L = lm_init_state[OF i] lm_init_locals[OF i] lm_init_bounds[OF i]
  have p: "parameters s0 = [Fin 0]" by (simp add: L ex_defs)
  have e: "error s0 = Fin 0" by (simp add: L ex_defs)
  have "js_le (error s0) (var_errorTolerance env)" by (simp add: e L damping_only_def)
  with converged_stops_loop[OF i, of ?A ?S]
  show "levenbergMarquardt ?A ?E ?S two_points constant_model ?o =
     Some (Inr (\<lparr>parameterValues = [Fin 0], parameterError = Fin 0, iterations = 0\<rparr>, []))"
    by (simp add: p e)
next
  let ?A = exact_arithmetic and ?E = first_parameter and ?S = scale_step
  let ?o = "(damping_only (Fin (1 / 100)))\<lparr>initialValues := JArr [Fin 2]\<rparr>"
  obtain env s0 where i: "lm_init ?E two_points constant_model ?o = Inr (env, s0)"
    by (simp add: init_defs ex_defs)
  note L = lm_init_state[OF i] lm_init_locals[OF i] lm_init_bounds[OF i]
  have p: "parameters s0 = [Fin 2]" by (simp add: L ex_defs)
  have e: "error s0 = Fin 2" by (simp add: L ex_defs)
  have h0: "lm_head ?A ?E ?S env 0 s0 = Some s0" by simp
  have r0: "running env s0" by (simp add: running_def e L damping_only_def)
  have u0: "lm_update ?A ?E ?S env (parameters s0) = ([Fin (1 / 50)], Fin (1 / 50))"
    by (simp add: p L ex_defs)
  have n0: "\<not> isNaN (Fin (1 / 50))" by simp
  note h1 = lm_head_next[OF h0 r0 u0 n0]
  let ?h = "s0\<lparr>parameters := [Fin (1 / 50)], error := Fin (1 / 50),
                 console := (if var_logAfterIteration env
                             then console s0 @ [(Fin (1 / 50), [Fin (1 / 50)])] else console s0),
                 converged := js_le (Fin (1 / 50)) (var_errorTolerance env),
                 iteration := Suc (iteration s0)\<rparr>"
  have r1: "running env ?h" by (simp add: running_def L damping_only_def)
  have u1: "lm_update ?A ?E ?S env (parameters ?h) = ([Fin (1 / 5000)], Fin (1 / 5000))"
    by (simp add: p L ex_defs)
  have le: "js_le (Fin (1 / 5000)) (var_errorTolerance env)" by (simp add: L damping_only_def)
  from converged_stops_loop[OF i, of ?A ?S] h1 r1 u1 le
  have "levenbergMarquardt ?A ?E ?S two_points constant_model ?o =
      Some (Inr (\<lparr>parameterValues = [Fin (1 / 5000)], parameterError = Fin (1 / 5000),
                   iterations = Suc (Suc 0)\<rparr>,
                 if logAfterIteration ?o
                 then console ?h @ [(Fin (1 / 5000), [Fin (1 / 5000)])] else console ?h))"
    by blast
  then show "levenbergMarquardt ?A ?E ?S two_points constant_model ?o =
     Some (Inr (\<lparr>parameterValues = [Fin (1 / 5000)], parameterError = Fin (1 / 5000),
                  iterations = 2\<rparr>, []))"
    by (simp add: L damping_only_def)
qed

section \<open>Divergence\<close>

text \<open>
  C2. When the error that the pass with index \<open>i\<close> recomputes is NaN, the loop ends in
  this pass: the result has the parameters that this pass has stepped and clamped (those
  that give the NaN, not those of the pass before), the error NaN, the counter \<open>i\<close>, and
  the console as the pass found it. Nothing is computed from these parameters afterwards.
\<close>

theorem nan_stops_loop:
  assumes "lm_init E d f opts = Inr (env, s0)"
    and "lm_head A E S env i s0 = Some h"
    and "running env h"
    and "ps = clamp_parameters (var_parLen env) (var_minValues env) (var_maxValues env)
                (S (var_data env) (parameters h) (var_damping env)
                   (var_gradientDifference env) (alignedFun A env (parameters h)))"
    and "isNaN (E (var_data env) ps (alignedFun A env (parameters h)))"
  shows "levenbergMarquardt A E S d f opts =
           Some (Inr (\<lparr>parameterValues = ps, parameterError = NaN, iterations = i\<rparr>,
                      console h))"
proof -
  have e: "E (var_data env) ps (alignedFun A env (parameters h)) = NaN"
    using assms(5) by (simp add: isNaN_eq)
  have "lm_update A E S env (parameters h) = (ps, NaN)"
    using assms(4) e by (simp add: lm_update_def Let_def)
  from lm_ends_at_break[OF assms(1,2,3) this] show ?thesis by simp
qed

theorem nan_stops_loop_witness:
  "levenbergMarquardt exact_arithmetic first_parameter scale_step two_points constant_model
     ((damping_only PInf)\<lparr>initialValues := JArr [Fin 1], errorTolerance := Some (Fin (- 1)),
        minValues := Some [Fin 0], maxValues := Some [Fin 0]\<rparr>) =
     Some (Inr (\<lparr>parameterValues = [NaN], parameterError = NaN, iterations = 1\<rparr>, []))"
proof -
  let ?A = exact_arithmetic and ?E = first_parameter and ?S = scale_step
  let ?o = "(damping_only PInf)\<lparr>initialValues := JArr [Fin 1],
        errorTolerance := Some (Fin (- 1)), minValues := Some [Fin 0],
        maxValues := Some [Fin 0]\<rparr>"
  obtain env s0 where i: "lm_init ?E two_points constant_model ?o = Inr (env, s0)"
    by (simp add: init_defs ex_defs)
  note L = lm_init_state[OF i] lm_init_locals[OF i] lm_init_bounds[OF i]
  have p: "parameters s0 = [Fin 1]" by (simp add: L ex_defs)
  have e: "error s0 = Fin 1" by (simp add: L ex_defs)
  have h0: "lm_head ?A ?E ?S env 0 s0 = Some s0" by simp
  have r0: "running env s0" by (simp add: running_def e L damping_only_def)
  have u0: "lm_update ?A ?E ?S env (parameters s0) = ([Fin 0], Fin 0)"
    by (simp add: p L ex_defs)
  have n0: "\<not> isNaN (Fin 0)" by simp
  note h1 = lm_head_next[OF h0 r0 u0 n0]
  let ?h = "s0\<lparr>parameters := [Fin 0], error := Fin 0,
                 console := (if var_logAfterIteration env
                             then console s0 @ [(Fin 0, [Fin 0])] else console s0),
                 converged := js_le (Fin 0) (var_errorTolerance env),
                 iteration := Suc (iteration s0)\<rparr>"
  have r1: "running env ?h" by (simp add: running_def L damping_only_def)
  have ps: "[NaN] = clamp_parameters (var_parLen env) (var_minValues env) (var_maxValues env)
                (?S (var_data env) (parameters ?h) (var_damping env)
                   (var_gradientDifference env) (alignedFun ?A env (parameters ?h)))"
    by (simp add: p L ex_defs)
  have nan: "isNaN (?E (var_data env) [NaN] (alignedFun ?A env (parameters ?h)))"
    by (simp add: ex_defs)
  from nan_stops_loop[OF i h1 r1 ps nan] show ?thesis
    by (simp add: L damping_only_def)
qed

text \<open>
  C9. The pass that recomputes a NaN error is not counted: when it is the pass with index
  \<open>i\<close>, the result has \<open>iterations = i\<close>. On the first pass this is \<open>iterations = 0\<close>,
  the count that a first error within the tolerance gives too; the two results differ in
  the error, which is NaN in one and not in the other.
\<close>

theorem nan_pass_not_counted:
  assumes "lm_init E d f opts = Inr (env, s0)"
  shows "(\<forall>i h ps e.
            lm_head A E S env i s0 = Some h \<and> running env h \<and>
            lm_update A E S env (parameters h) = (ps, e) \<and> isNaN e \<longrightarrow>
            (\<exists>r c. levenbergMarquardt A E S d f opts = Some (Inr (r, c)) \<and>
                   isNaN (parameterError r) \<and> iterations r = i)) \<and>
         (running env s0 \<and> isNaN (snd (lm_update A E S env (parameters s0))) \<longrightarrow>
            (\<exists>r c. levenbergMarquardt A E S d f opts = Some (Inr (r, c)) \<and>
                   isNaN (parameterError r) \<and> iterations r = 0)) \<and>
         (js_le (error s0) (var_errorTolerance env) \<longrightarrow>
            (\<exists>r c. levenbergMarquardt A E S d f opts = Some (Inr (r, c)) \<and>
                   \<not> isNaN (parameterError r) \<and> iterations r = 0))"
proof (intro conjI allI impI)
  fix i h ps e
  assume a: "lm_head A E S env i s0 = Some h \<and> running env h \<and>
            lm_update A E S env (parameters h) = (ps, e) \<and> isNaN e"
  then have "levenbergMarquardt A E S d f opts =
           Some (Inr (\<lparr>parameterValues = ps, parameterError = e, iterations = i\<rparr>, console h))"
    by (intro lm_ends_at_break[OF assms]) auto
  with a show "\<exists>r c. levenbergMarquardt A E S d f opts = Some (Inr (r, c)) \<and>
                   isNaN (parameterError r) \<and> iterations r = i"
    by simp
next
  assume a: "running env s0 \<and> isNaN (snd (lm_update A E S env (parameters s0)))"
  obtain ps e where u: "lm_update A E S env (parameters s0) = (ps, e)"
    by (cases "lm_update A E S env (parameters s0)")
  with a have n: "isNaN e" by simp
  have "lm_head A E S env 0 s0 = Some s0" by simp
  from lm_ends_at_break[OF assms this _ u n] a n
  show "\<exists>r c. levenbergMarquardt A E S d f opts = Some (Inr (r, c)) \<and>
                   isNaN (parameterError r) \<and> iterations r = 0"
    by simp
next
  assume a: "js_le (error s0) (var_errorTolerance env)"
  then have "\<not> running env s0"
    using lm_init_state(3)[OF assms] by (simp add: running_def)
  from lm_ends_at_test[OF assms _ this, of A S 0] a
  show "\<exists>r c. levenbergMarquardt A E S d f opts = Some (Inr (r, c)) \<and>
                   \<not> isNaN (parameterError r) \<and> iterations r = 0"
    by (auto dest: js_le_not_NaN)
qed

theorem nan_pass_not_counted_witness:
  "(\<exists>r c. levenbergMarquardt exact_arithmetic first_parameter scale_step two_points constant_model
       ((damping_only PInf)\<lparr>initialValues := JArr [Fin 0],
          errorTolerance := Some (Fin (- 1))\<rparr>) = Some (Inr (r, c)) \<and>
       isNaN (parameterError r) \<and> iterations r = 0) \<and>
   (\<exists>r c. levenbergMarquardt exact_arithmetic first_parameter scale_step two_points constant_model
       ((damping_only PInf)\<lparr>initialValues := JArr [Fin 0]\<rparr>) = Some (Inr (r, c)) \<and>
       \<not> isNaN (parameterError r) \<and> iterations r = 0)"
proof
  let ?A = exact_arithmetic and ?E = first_parameter and ?S = scale_step
  let ?o = "(damping_only PInf)\<lparr>initialValues := JArr [Fin 0],
          errorTolerance := Some (Fin (- 1))\<rparr>"
  obtain env s0 where i: "lm_init ?E two_points constant_model ?o = Inr (env, s0)"
    by (simp add: init_defs ex_defs)
  note L = lm_init_state[OF i] lm_init_locals[OF i] lm_init_bounds[OF i]
  have p: "parameters s0 = [Fin 0]" by (simp add: L ex_defs)
  have e: "error s0 = Fin 0" by (simp add: L ex_defs)
  have rn: "running env s0" by (simp add: running_def e L damping_only_def)
  have up: "lm_update ?A ?E ?S env (parameters s0) = ([NaN], NaN)"
    by (simp add: p L ex_defs)
  from nan_pass_not_counted[OF i, of ?A ?S] rn up
  show "\<exists>r c. levenbergMarquardt ?A ?E ?S two_points constant_model ?o = Some (Inr (r, c)) \<and>
       isNaN (parameterError r) \<and> iterations r = 0"
    by simp
next
  let ?A = exact_arithmetic and ?E = first_parameter and ?S = scale_step
  let ?o = "(damping_only PInf)\<lparr>initialValues := JArr [Fin 0]\<rparr>"
  obtain env s0 where i: "lm_init ?E two_points constant_model ?o = Inr (env, s0)"
    by (simp add: init_defs ex_defs)
  note L = lm_init_state[OF i] lm_init_locals[OF i] lm_init_bounds[OF i]
  have e: "error s0 = Fin 0" by (simp add: L ex_defs)
  have "js_le (error s0) (var_errorTolerance env)" by (simp add: e L damping_only_def)
  with nan_pass_not_counted[OF i, of ?A ?S]
  show "\<exists>r c. levenbergMarquardt ?A ?E ?S two_points constant_model ?o = Some (Inr (r, c)) \<and>
       \<not> isNaN (parameterError r) \<and> iterations r = 0"
    by blast
qed

section \<open>The cap on the iterations\<close>

text \<open>
  C4, as amended. When \<^verbatim>\<open>maxIterations\<close> (the option, or the default 100) is a
  non-negative integer or \<^verbatim>\<open>Infinity\<close>, the count of iterations in a returned result
  does not exceed it.
\<close>

theorem iterations_bounded:
  assumes "levenbergMarquardt A E S d f opts = Some (Inr (res, c))"
    and "cap = (case maxIterations opts of None \<Rightarrow> Fin 100 | Some v \<Rightarrow> v)"
    and "cap = PInf \<or> (\<exists>n::nat. cap = Fin (real n))"
  shows "js_le (Fin (real (iterations res))) cap"
proof -
  from assms(1) obtain env s0 t where init: "lm_init E d f opts = Inr (env, s0)"
    and t: "lm_loop A E S env s0 = Some t" and res: "iterations res = iteration t"
    by (auto simp: levenbergMarquardt_def split: sum.splits prod.splits option.splits)
  from assms(3) show ?thesis
  proof
    assume "cap = PInf"
    then show ?thesis by simp
  next
    assume "\<exists>n::nat. cap = Fin (real n)"
    then obtain n :: nat where n: "cap = Fin (real n)" by blast
    have m: "var_maxIterations env = Fin (real n)"
      using lm_init_locals(2)[OF init] assms(2) n by simp
    from lm_loop_result[OF t] obtain k h where h: "lm_head A E S env k s0 = Some h"
      and "t = h \<or> t = snd (lm_body A E S env h)" by blast
    then have "iteration t = iteration h" by (auto simp: lm_body_iteration)
    moreover have "iteration h \<le> nat \<lceil>real n\<rceil>"
      using lm_head_bound[OF m h] lm_init_state(1)[OF init] by simp
    ultimately have "iteration t \<le> n" by simp
    then show ?thesis by (simp add: res n)
  qed
qed

theorem iterations_bounded_witness:
  "levenbergMarquardt exact_arithmetic first_parameter scale_step two_points constant_model
     ((damping_only (Fin 1))\<lparr>maxIterations := Some (Fin 2)\<rparr>) =
     Some (Inr (\<lparr>parameterValues = [Fin 1], parameterError = Fin 1, iterations = 2\<rparr>, [])) \<and>
   js_le (Fin (real (iterations
            \<lparr>parameterValues = [Fin 1], parameterError = Fin 1, iterations = 2\<rparr>))) (Fin (real 2)) \<and>
   levenbergMarquardt exact_arithmetic first_parameter scale_step two_points constant_model
     ((damping_only (Fin 1))\<lparr>maxIterations := Some PInf, initialValues := JArr [Fin 0]\<rparr>) =
     Some (Inr (\<lparr>parameterValues = [Fin 0], parameterError = Fin 0, iterations = 0\<rparr>, [])) \<and>
   js_le (Fin (real (iterations
            \<lparr>parameterValues = [Fin 0], parameterError = Fin 0, iterations = 0\<rparr>))) PInf"
proof -
  let ?A = exact_arithmetic and ?E = first_parameter and ?S = scale_step
  let ?o = "(damping_only (Fin 1))\<lparr>maxIterations := Some (Fin 2)\<rparr>"
  let ?res = "\<lparr>parameterValues = [Fin 1], parameterError = Fin 1, iterations = 2\<rparr>"
  obtain env s0 where i: "lm_init ?E two_points constant_model ?o = Inr (env, s0)"
    by (simp add: init_defs ex_defs)
  note L = lm_init_state[OF i] lm_init_locals[OF i] lm_init_bounds[OF i]
  have p: "parameters s0 = [Fin 1]" by (simp add: L ex_defs)
  have e: "error s0 = Fin 1" by (simp add: L ex_defs)
  have u: "lm_update ?A ?E ?S env [Fin 1] = ([Fin 1], Fin 1)"
    by (simp add: p L ex_defs)
  have s0: "s0 = \<lparr>parameters = [Fin 1], error = Fin 1, converged = False, iteration = 0,
                   console = []\<rparr>"
    using lm_init_Inr(2)[OF i] by (simp add: elements_start_parameters ex_defs)
  have b: "lm_body ?A ?E ?S env (s0\<lparr>iteration := n\<rparr>) = (False, s0\<lparr>iteration := n\<rparr>)" for n
    using u by (simp add: lm_body_def s0 L(6,8) damping_only_def)
  have r: "running env (s0\<lparr>iteration := n\<rparr>) \<longleftrightarrow> real n < 2" for n
    by (simp add: running_def s0 L(7) damping_only_def)
  have h0: "lm_head ?A ?E ?S env 0 s0 = Some (s0\<lparr>iteration := 0\<rparr>)"
    by (simp add: s0)
  have st: "lm_head ?A ?E ?S env (Suc n) s0 = Some (s0\<lparr>iteration := Suc n\<rparr>)"
    if "lm_head ?A ?E ?S env n s0 = Some (s0\<lparr>iteration := n\<rparr>)" and "real n < 2" for n
    using that by (simp add: b r)
  have h2: "lm_head ?A ?E ?S env (Suc (Suc 0)) s0 = Some (s0\<lparr>iteration := Suc (Suc 0)\<rparr>)"
    by (rule st, rule st, rule h0) simp_all
  have "\<not> running env (s0\<lparr>iteration := Suc (Suc 0)\<rparr>)" by (simp add: r)
  from lm_ends_at_test[OF i h2 this]
  have run: "levenbergMarquardt ?A ?E ?S two_points constant_model ?o = Some (Inr (?res, []))"
    by (simp add: s0 numeral_2_eq_2)
  have cap: "Fin (real 2) = (case maxIterations ?o of None \<Rightarrow> Fin 100 | Some v \<Rightarrow> v)"
    by (simp add: damping_only_def)
  have int: "Fin (real 2) = PInf \<or> (\<exists>n::nat. Fin (real 2) = Fin (real n))" by blast
  note b1 = iterations_bounded[OF run cap int]
  let ?o' = "(damping_only (Fin 1))\<lparr>maxIterations := Some PInf, initialValues := JArr [Fin 0]\<rparr>"
  let ?res' = "\<lparr>parameterValues = [Fin 0], parameterError = Fin 0, iterations = 0\<rparr>"
  obtain env' s0' where i': "lm_init ?E two_points constant_model ?o' = Inr (env', s0')"
    by (simp add: init_defs ex_defs)
  note L' = lm_init_state[OF i'] lm_init_locals[OF i'] lm_init_bounds[OF i']
  have p': "parameters s0' = [Fin 0]" by (simp add: L' ex_defs)
  have e': "error s0' = Fin 0" by (simp add: L' ex_defs)
  have "\<not> running env' s0'" by (simp add: running_def e' L' damping_only_def)
  from lm_ends_at_test[OF i' _ this, of ?A ?S 0]
  have run': "levenbergMarquardt ?A ?E ?S two_points constant_model ?o' = Some (Inr (?res', []))"
    by (simp add: p' e' L')
  have cap': "PInf = (case maxIterations ?o' of None \<Rightarrow> Fin 100 | Some v \<Rightarrow> v)"
    by (simp add: damping_only_def)
  have inf: "PInf = PInf \<or> (\<exists>n::nat. PInf = Fin (real n))" by simp
  note b2 = iterations_bounded[OF run' cap' inf]
  from run b1 run' b2 show ?thesis by blast
qed

text \<open>
  The claim as it stands fails: a cap of 2.5 lets three passes run, and a negative cap is
  below the count 0 of a run without a pass.
\<close>

theorem iterations_exceed_cap:
  "levenbergMarquardt exact_arithmetic first_parameter scale_step two_points constant_model
     ((damping_only (Fin 1))\<lparr>maxIterations := Some (Fin (5 / 2))\<rparr>) =
     Some (Inr (\<lparr>parameterValues = [Fin 1], parameterError = Fin 1, iterations = 3\<rparr>, [])) \<and>
   \<not> js_le (Fin 3) (Fin (5 / 2)) \<and>
   levenbergMarquardt exact_arithmetic first_parameter scale_step two_points constant_model
     ((damping_only (Fin 1))\<lparr>maxIterations := Some (Fin (- 1))\<rparr>) =
     Some (Inr (\<lparr>parameterValues = [Fin 1], parameterError = Fin 1, iterations = 0\<rparr>, [])) \<and>
   \<not> js_le (Fin 0) (Fin (- 1))"
proof (intro conjI)
  let ?A = exact_arithmetic and ?E = first_parameter and ?S = scale_step
  let ?o = "(damping_only (Fin 1))\<lparr>maxIterations := Some (Fin (5 / 2))\<rparr>"
  obtain env s0 where i: "lm_init ?E two_points constant_model ?o = Inr (env, s0)"
    by (simp add: init_defs ex_defs)
  note L = lm_init_state[OF i] lm_init_locals[OF i] lm_init_bounds[OF i]
  have p: "parameters s0 = [Fin 1]" by (simp add: L ex_defs)
  have e: "error s0 = Fin 1" by (simp add: L ex_defs)
  have c: "\<not> converged s0" by (simp add: e L damping_only_def)
  have u: "lm_update ?A ?E ?S env [Fin 1] = ([Fin 1], Fin 1)"
    by (simp add: p L ex_defs)
  have s0: "s0 = \<lparr>parameters = [Fin 1], error = Fin 1, converged = False, iteration = 0,
                   console = []\<rparr>"
    using lm_init_Inr(2)[OF i] by (simp add: elements_start_parameters ex_defs)
  have b: "lm_body ?A ?E ?S env (s0\<lparr>iteration := n\<rparr>) = (False, s0\<lparr>iteration := n\<rparr>)" for n
    using u by (simp add: lm_body_def s0 L(6,8) damping_only_def)
  have r: "running env (s0\<lparr>iteration := n\<rparr>) \<longleftrightarrow> real n < 5 / 2" for n
    using c by (simp add: running_def L(7) damping_only_def)
  have h0: "lm_head ?A ?E ?S env 0 s0 = Some (s0\<lparr>iteration := 0\<rparr>)"
    by (simp add: s0)
  have st: "lm_head ?A ?E ?S env (Suc n) s0 = Some (s0\<lparr>iteration := Suc n\<rparr>)"
    if "lm_head ?A ?E ?S env n s0 = Some (s0\<lparr>iteration := n\<rparr>)" and "real n < 5 / 2" for n
    using that by (simp add: b r)
  have h3: "lm_head ?A ?E ?S env (Suc (Suc (Suc 0))) s0 = Some (s0\<lparr>iteration := Suc (Suc (Suc 0))\<rparr>)"
    by (rule st, rule st, rule st, rule h0) simp_all
  have "\<not> running env (s0\<lparr>iteration := Suc (Suc (Suc 0))\<rparr>)" by (simp add: r)
  from lm_ends_at_test[OF i h3 this]
  show "levenbergMarquardt ?A ?E ?S two_points constant_model ?o =
     Some (Inr (\<lparr>parameterValues = [Fin 1], parameterError = Fin 1, iterations = 3\<rparr>, []))"
    by (simp add: s0 numeral_3_eq_3)
next
  let ?A = exact_arithmetic and ?E = first_parameter and ?S = scale_step
  let ?o = "(damping_only (Fin 1))\<lparr>maxIterations := Some (Fin (- 1))\<rparr>"
  obtain env s0 where i: "lm_init ?E two_points constant_model ?o = Inr (env, s0)"
    by (simp add: init_defs ex_defs)
  note L = lm_init_state[OF i] lm_init_locals[OF i] lm_init_bounds[OF i]
  have p: "parameters s0 = [Fin 1]" by (simp add: L ex_defs)
  have e: "error s0 = Fin 1" by (simp add: L ex_defs)
  have "\<not> running env s0" by (simp add: running_def L damping_only_def)
  from lm_ends_at_test[OF i _ this, of ?A ?S 0]
  show "levenbergMarquardt ?A ?E ?S two_points constant_model ?o =
     Some (Inr (\<lparr>parameterValues = [Fin 1], parameterError = Fin 1, iterations = 0\<rparr>, []))"
    by (simp add: p e L)
qed simp_all

section \<open>The checks of the arguments\<close>

lemma not_truthy_not_isArray: "\<not> truthy v \<Longrightarrow> \<not> isArray v"
  by (cases v) auto

lemma length_new_Array_fill_start:
  "isArray (start_parameters f opts) \<Longrightarrow>
   length (new_Array_fill (js_length (start_parameters f opts)) v) =
     length (elements (start_parameters f opts))"
  by (simp add: isArray_length new_Array_fill_def)

lemma isArray_start_parameters:
  "isArray (start_parameters f opts) \<longleftrightarrow> isArray (initialValues opts) \<or> \<not> truthy (initialValues opts)"
  by (simp add: start_parameters_def)

text \<open>The length of a bound: its own when it is given, that of the parameters otherwise.\<close>

lemma length_bound:
  "isArray (start_parameters f opts) \<Longrightarrow>
   length (case b of None \<Rightarrow> new_Array_fill (js_length (start_parameters f opts)) v | Some w \<Rightarrow> w) =
     (case b of None \<Rightarrow> length (elements (start_parameters f opts)) | Some w \<Rightarrow> length w)"
  by (cases b) (simp_all add: length_new_Array_fill_start)

lemma lm_init_Inl_iff:
  "(\<exists>e. lm_init E d f opts = Inl e) \<longleftrightarrow>
     js_le (case damping opts of None \<Rightarrow> Fin 0 | Some v \<Rightarrow> v) (Fin 0) \<or>
     \<not> truthy (data_x d) \<or> \<not> truthy (data_y d) \<or>
     \<not> isArray (data_x d) \<or> \<not> isArray (data_y d) \<or>
     length (elements (data_x d)) < 2 \<or> length (elements (data_y d)) < 2 \<or>
     length (elements (data_x d)) \<noteq> length (elements (data_y d)) \<or>
     (case maxValues opts of None \<Rightarrow> length (elements (start_parameters f opts))
      | Some v \<Rightarrow> length v) \<noteq>
     (case minValues opts of None \<Rightarrow> length (elements (start_parameters f opts))
      | Some v \<Rightarrow> length v) \<or>
     (truthy (initialValues opts) \<and> \<not> isArray (initialValues opts))"
proof (cases "isArray (start_parameters f opts)")
  case True
  then have t: "\<not> (truthy (initialValues opts) \<and> \<not> isArray (initialValues opts))"
    by (auto simp: isArray_start_parameters)
  show ?thesis
    unfolding lm_init_def Let_def using True t
    by (simp add: length_bound) blast
next
  case False
  then have t: "truthy (initialValues opts) \<and> \<not> isArray (initialValues opts)"
    by (auto simp: isArray_start_parameters)
  show ?thesis
    unfolding lm_init_def Let_def using False t
    by simp
qed

lemma lm_error_iff_init:
  "levenbergMarquardt A E S d f opts = Some (Inl e) \<longleftrightarrow> lm_init E d f opts = Inl e"
  by (cases "lm_init E d f opts")
     (auto simp: levenbergMarquardt_def split: option.splits prod.splits)

lemma lm_init_Inl_helpers: "lm_init E d f opts = Inl e \<Longrightarrow> lm_init E' d f opts = Inl e"
  unfolding lm_init_def Let_def by (auto split: if_splits)

text \<open>
  C5, as amended. An error is thrown exactly when one of these holds: \<^verbatim>\<open>damping\<close> is
  absent or at most 0; \<^verbatim>\<open>data.x\<close> or \<^verbatim>\<open>data.y\<close> is absent (falsy), is not an array,
  has fewer than 2 elements, or the two differ in length; the two bounds differ in length,
  where an absent bound counts with the number of start parameters; \<^verbatim>\<open>initialValues\<close>
  is a truthy value that is not an array. A falsy \<^verbatim>\<open>initialValues\<close> is taken as absent.
  The error is the same whatever the two helpers are: it is thrown before a pass.
\<close>

theorem validation_errors:
  "((\<exists>e. levenbergMarquardt A E S d f opts = Some (Inl e)) \<longleftrightarrow>
     js_le (case damping opts of None \<Rightarrow> Fin 0 | Some v \<Rightarrow> v) (Fin 0) \<or>
     \<not> truthy (data_x d) \<or> \<not> truthy (data_y d) \<or>
     \<not> isArray (data_x d) \<or> \<not> isArray (data_y d) \<or>
     length (elements (data_x d)) < 2 \<or> length (elements (data_y d)) < 2 \<or>
     length (elements (data_x d)) \<noteq> length (elements (data_y d)) \<or>
     (case maxValues opts of None \<Rightarrow> length (elements (start_parameters f opts))
      | Some v \<Rightarrow> length v) \<noteq>
     (case minValues opts of None \<Rightarrow> length (elements (start_parameters f opts))
      | Some v \<Rightarrow> length v) \<or>
     (truthy (initialValues opts) \<and> \<not> isArray (initialValues opts))) \<and>
   (\<forall>e. levenbergMarquardt A E S d f opts = Some (Inl e) \<longrightarrow>
        (\<forall>A' E' S'. levenbergMarquardt A' E' S' d f opts = Some (Inl e)))"
  unfolding lm_error_iff_init using lm_init_Inl_iff[of E d f opts] lm_init_Inl_helpers[of E d f opts]
  by blast

theorem validation_errors_witness:
  "(\<exists>e. levenbergMarquardt exact_arithmetic first_parameter scale_step two_points constant_model
          (damping_only (Fin 0)) = Some (Inl e)) \<and>
   (\<exists>e. levenbergMarquardt exact_arithmetic first_parameter scale_step
          \<lparr>data_x = JArr [Fin 1], data_y = JArr [Fin 0, Fin 0]\<rparr> constant_model
          (damping_only (Fin 1)) = Some (Inl e)) \<and>
   (\<exists>e. levenbergMarquardt exact_arithmetic first_parameter scale_step
          \<lparr>data_x = JArr [Fin 0, Fin 1, Fin 2], data_y = JArr [Fin 0, Fin 0]\<rparr> constant_model
          (damping_only (Fin 1)) = Some (Inl e)) \<and>
   (\<exists>e. levenbergMarquardt exact_arithmetic first_parameter scale_step two_points constant_model
          ((damping_only (Fin 1))\<lparr>initialValues := JStr ''ab''\<rparr>) = Some (Inl e)) \<and>
   \<not> (\<exists>e. levenbergMarquardt exact_arithmetic first_parameter scale_step two_points constant_model
          (damping_only (Fin 1)) = Some (Inl e)) \<and>
   levenbergMarquardt exact_arithmetic (\<lambda>d ps m. NaN) (\<lambda>d ps dm gd m. ps) two_points constant_model
     (damping_only (Fin 0)) = Some (Inl DampingNotPositive)"
proof (intro conjI)
  have "levenbergMarquardt exact_arithmetic first_parameter scale_step two_points constant_model
          (damping_only (Fin 0)) = Some (Inl DampingNotPositive)"
    by (simp add: levenbergMarquardt_def lm_init_def damping_only_def)
  with validation_errors[THEN conjunct2, of exact_arithmetic first_parameter scale_step two_points
      constant_model "damping_only (Fin 0)"]
  show "levenbergMarquardt exact_arithmetic (\<lambda>d ps m. NaN) (\<lambda>d ps dm gd m. ps) two_points constant_model
     (damping_only (Fin 0)) = Some (Inl DampingNotPositive)"
    by blast
next
  show "\<exists>e. levenbergMarquardt exact_arithmetic first_parameter scale_step two_points constant_model
          (damping_only (Fin 0)) = Some (Inl e)"
    using validation_errors[THEN conjunct1, of exact_arithmetic first_parameter scale_step two_points constant_model
        "damping_only (Fin 0)"]
    by (simp add: damping_only_def)
next
  show "\<exists>e. levenbergMarquardt exact_arithmetic first_parameter scale_step
          \<lparr>data_x = JArr [Fin 1], data_y = JArr [Fin 0, Fin 0]\<rparr> constant_model
          (damping_only (Fin 1)) = Some (Inl e)"
    using validation_errors[THEN conjunct1, of exact_arithmetic first_parameter scale_step
        "\<lparr>data_x = JArr [Fin 1], data_y = JArr [Fin 0, Fin 0]\<rparr>" constant_model
        "damping_only (Fin 1)"]
    by simp
  show "\<exists>e. levenbergMarquardt exact_arithmetic first_parameter scale_step
          \<lparr>data_x = JArr [Fin 0, Fin 1, Fin 2], data_y = JArr [Fin 0, Fin 0]\<rparr> constant_model
          (damping_only (Fin 1)) = Some (Inl e)"
    using validation_errors[THEN conjunct1, of exact_arithmetic first_parameter scale_step
        "\<lparr>data_x = JArr [Fin 0, Fin 1, Fin 2], data_y = JArr [Fin 0, Fin 0]\<rparr>" constant_model
        "damping_only (Fin 1)"]
    by simp
  show "\<exists>e. levenbergMarquardt exact_arithmetic first_parameter scale_step two_points constant_model
          ((damping_only (Fin 1))\<lparr>initialValues := JStr ''ab''\<rparr>) = Some (Inl e)"
    using validation_errors[THEN conjunct1, of exact_arithmetic first_parameter scale_step two_points constant_model
        "(damping_only (Fin 1))\<lparr>initialValues := JStr ''ab''\<rparr>"]
    by simp
  show "\<not> (\<exists>e. levenbergMarquardt exact_arithmetic first_parameter scale_step two_points constant_model
          (damping_only (Fin 1)) = Some (Inl e))"
    using validation_errors[THEN conjunct1, of exact_arithmetic first_parameter scale_step two_points constant_model
        "damping_only (Fin 1)"]
    by (simp add: damping_only_def two_points_def start_parameters_def)
qed

text \<open>
  The claim as it stands fails: \<^verbatim>\<open>initialValues: 0\<close> is present and not an array, and
  the procedure returns a result, computed from the default parameters.
\<close>

theorem falsy_initialValues_accepted:
  "levenbergMarquardt exact_arithmetic first_parameter scale_step two_points constant_model
     ((damping_only (Fin 1))\<lparr>maxIterations := Some (Fin 0), initialValues := JNum (Fin 0)\<rparr>) =
     Some (Inr (\<lparr>parameterValues = [Fin 1], parameterError = Fin 1, iterations = 0\<rparr>, [])) \<and>
   \<not> isArray (JNum (Fin 0)) \<and> JNum (Fin 0) \<noteq> JUndefined"
proof (intro conjI)
  let ?A = exact_arithmetic and ?E = first_parameter and ?S = scale_step
  let ?o = "(damping_only (Fin 1))\<lparr>maxIterations := Some (Fin 0),
              initialValues := JNum (Fin 0)\<rparr>"
  obtain env s0 where i: "lm_init ?E two_points constant_model ?o = Inr (env, s0)"
    by (simp add: init_defs ex_defs)
  note L = lm_init_state[OF i] lm_init_locals[OF i] lm_init_bounds[OF i]
  have p: "parameters s0 = [Fin 1]" by (simp add: L ex_defs)
  have e: "error s0 = Fin 1" by (simp add: L ex_defs)
  have "\<not> running env s0" by (simp add: running_def L damping_only_def)
  from lm_ends_at_test[OF i _ this, of ?A ?S 0]
  show "levenbergMarquardt ?A ?E ?S two_points constant_model ?o =
     Some (Inr (\<lparr>parameterValues = [Fin 1], parameterError = Fin 1, iterations = 0\<rparr>, []))"
    by (simp add: p e L)
qed simp_all

text \<open>
  C10. When both bounds are given with equal lengths, the check of their sizes does not
  throw, whatever the number of parameters is; with arguments that pass the other checks
  no error is thrown at all. The witness has two bounds of length 2 and one parameter.
\<close>

theorem equal_bounds_accepted:
  assumes "minValues opts = Some mn" and "maxValues opts = Some mx"
    and "length mn = length mx"
  shows "levenbergMarquardt A E S d f opts \<noteq> Some (Inl BoundsSizeMismatch) \<and>
         (\<not> js_le (case damping opts of None \<Rightarrow> Fin 0 | Some v \<Rightarrow> v) (Fin 0) \<and>
          isArray (data_x d) \<and> isArray (data_y d) \<and>
          2 \<le> length (elements (data_x d)) \<and>
          length (elements (data_x d)) = length (elements (data_y d)) \<and>
          (isArray (initialValues opts) \<or> \<not> truthy (initialValues opts)) \<longrightarrow>
          (\<forall>e. levenbergMarquardt A E S d f opts \<noteq> Some (Inl e)))"
proof
  show "levenbergMarquardt A E S d f opts \<noteq> Some (Inl BoundsSizeMismatch)"
    unfolding lm_error_iff_init lm_init_def Let_def using assms by simp
next
  show "\<not> js_le (case damping opts of None \<Rightarrow> Fin 0 | Some v \<Rightarrow> v) (Fin 0) \<and>
          isArray (data_x d) \<and> isArray (data_y d) \<and>
          2 \<le> length (elements (data_x d)) \<and>
          length (elements (data_x d)) = length (elements (data_y d)) \<and>
          (isArray (initialValues opts) \<or> \<not> truthy (initialValues opts)) \<longrightarrow>
          (\<forall>e. levenbergMarquardt A E S d f opts \<noteq> Some (Inl e))"
  proof
    assume a: "\<not> js_le (case damping opts of None \<Rightarrow> Fin 0 | Some v \<Rightarrow> v) (Fin 0) \<and>
          isArray (data_x d) \<and> isArray (data_y d) \<and>
          2 \<le> length (elements (data_x d)) \<and>
          length (elements (data_x d)) = length (elements (data_y d)) \<and>
          (isArray (initialValues opts) \<or> \<not> truthy (initialValues opts))"
    then have "truthy (data_x d)" "truthy (data_y d)"
      using not_truthy_not_isArray by blast+
    with a assms have "\<not> (\<exists>e. lm_init E d f opts = Inl e)"
      unfolding lm_init_Inl_iff by auto
    then show "\<forall>e. levenbergMarquardt A E S d f opts \<noteq> Some (Inl e)"
      by (simp add: lm_error_iff_init)
  qed
qed

theorem equal_bounds_accepted_witness:
  "length (elements (start_parameters constant_model
      ((damping_only (Fin 1))\<lparr>minValues := Some [Fin 0, Fin 0],
         maxValues := Some [Fin 5, Fin 5]\<rparr>))) = 1 \<and>
   (\<forall>e. levenbergMarquardt exact_arithmetic first_parameter scale_step two_points constant_model
       ((damping_only (Fin 1))\<lparr>minValues := Some [Fin 0, Fin 0],
          maxValues := Some [Fin 5, Fin 5]\<rparr>) \<noteq> Some (Inl e))"
proof
  let ?o = "(damping_only (Fin 1))\<lparr>minValues := Some [Fin 0, Fin 0],
              maxValues := Some [Fin 5, Fin 5]\<rparr>"
  show "length (elements (start_parameters constant_model ?o)) = 1"
    by (simp add: init_defs ex_defs)
  have "minValues ?o = Some [Fin 0, Fin 0]" "maxValues ?o = Some [Fin 5, Fin 5]"
    "length [Fin 0, Fin 0] = length [Fin 5, Fin 5]"
    by (simp_all add: damping_only_def)
  from equal_bounds_accepted[OF this, of exact_arithmetic first_parameter scale_step two_points constant_model]
  show "\<forall>e. levenbergMarquardt exact_arithmetic first_parameter scale_step two_points constant_model ?o \<noteq>
      Some (Inl e)"
    by (simp add: damping_only_def two_points_def)
qed

section \<open>The clamp of the parameters\<close>

lemma length_arr_set: "k \<le> length xs \<Longrightarrow> length (arr_set xs k v) = max (Suc k) (length xs)"
  by (auto simp: arr_set_def)

lemma arr_get_arr_set:
  "k \<le> length xs \<Longrightarrow> arr_get (arr_set xs k v) j = (if j = k then v else arr_get xs j)"
  by (auto simp: arr_set_def arr_get_def nth_append)

lemma clamp_parameters_Suc:
  "clamp_parameters (Suc n) minV maxV ps = clamp_at minV maxV n (clamp_parameters n minV maxV ps)"
  by (simp add: clamp_parameters_def)

text \<open>The clamp loop writes the indices in order, so it never leaves a hole.\<close>

lemma length_clamp_parameters:
  "length (clamp_parameters n minV maxV ps) = max n (length ps)"
proof (induction n)
  case 0
  show ?case by (simp add: clamp_parameters_def)
next
  case (Suc n)
  then have "n \<le> length (clamp_parameters n minV maxV ps)" by simp
  then show ?case
    unfolding clamp_parameters_Suc clamp_at_def using Suc by (simp add: length_arr_set)
qed

lemma arr_get_clamp_parameters:
  "arr_get (clamp_parameters n minV maxV ps) k =
     (if k < n then math_min (math_max (arr_get minV k) (arr_get ps k)) (arr_get maxV k)
      else arr_get ps k)"
proof (induction n)
  case 0
  show ?case by (simp add: clamp_parameters_def)
next
  case (Suc n)
  have "n \<le> length (clamp_parameters n minV maxV ps)"
    by (simp add: length_clamp_parameters)
  then show ?case
    unfolding clamp_parameters_Suc clamp_at_def using Suc
    by (auto simp: arr_get_arr_set)
qed








text \<open>
  C7, as amended. When \<^verbatim>\<open>minValues\<close> and \<^verbatim>\<open>maxValues\<close> are absent, the bounds are
  \<^verbatim>\<open>Number.MIN_SAFE_INTEGER\<close> and \<^verbatim>\<open>Number.MAX_SAFE_INTEGER\<close>, that is \<open>- (2^53 - 1)\<close>
  and \<open>2^53 - 1\<close>, one for each start parameter. The clamp with them takes a finite
  parameter \<open>r\<close> to the nearest value in this range: it leaves \<open>r\<close> as it is exactly when
  its magnitude is at most \<open>2^53 - 1\<close>.
\<close>

theorem default_bounds_safe_integers:
  assumes "lm_init E d f opts = Inr (env, s0)"
    and "minValues opts = None" and "maxValues opts = None"
  shows "var_minValues env = replicate (var_parLen env) (Fin (- (2 ^ 53 - 1))) \<and>
         var_maxValues env = replicate (var_parLen env) (Fin (2 ^ 53 - 1)) \<and>
         (\<forall>ps k r. k < var_parLen env \<and> arr_get ps k = Fin r \<longrightarrow>
            arr_get (clamp_parameters (var_parLen env) (var_minValues env) (var_maxValues env) ps) k =
              Fin (min (max (- (2 ^ 53 - 1)) r) (2 ^ 53 - 1)) \<and>
            (arr_get (clamp_parameters (var_parLen env) (var_minValues env) (var_maxValues env) ps) k =
              Fin r \<longleftrightarrow> \<bar>r\<bar> \<le> 2 ^ 53 - 1))"
proof (intro conjI allI impI)
  show mn: "var_minValues env = replicate (var_parLen env) (Fin (- (2 ^ 53 - 1)))"
    unfolding lm_init_bounds(1)[OF assms(1)] lm_init_locals(4)[OF assms(1)]
    by (simp add: assms(2) MIN_SAFE_INTEGER_def)
  show mx: "var_maxValues env = replicate (var_parLen env) (Fin (2 ^ 53 - 1))"
    unfolding lm_init_bounds(2)[OF assms(1)] lm_init_locals(4)[OF assms(1)]
    by (simp add: assms(3) MAX_SAFE_INTEGER_def)
  fix ps k r
  assume k: "k < var_parLen env \<and> arr_get ps k = Fin r"
  then have lo: "arr_get (var_minValues env) k = Fin (- (2 ^ 53 - 1))"
    and hi: "arr_get (var_maxValues env) k = Fin (2 ^ 53 - 1)"
    by (simp_all add: mn mx arr_get_def)
  show v: "arr_get (clamp_parameters (var_parLen env) (var_minValues env) (var_maxValues env) ps) k =
              Fin (min (max (- (2 ^ 53 - 1)) r) (2 ^ 53 - 1))"
    unfolding arr_get_clamp_parameters lo hi using k
    by (auto simp: math_min_def math_max_def)
  show "arr_get (clamp_parameters (var_parLen env) (var_minValues env) (var_maxValues env) ps) k =
              Fin r \<longleftrightarrow> \<bar>r\<bar> \<le> 2 ^ 53 - 1"
    unfolding v by auto
qed

theorem default_bounds_safe_integers_witness:
  "\<exists>env s0. lm_init first_parameter two_points constant_model (damping_only (Fin 1)) =
       Inr (env, s0) \<and>
     var_minValues env = [Fin (- (2 ^ 53 - 1))] \<and> var_maxValues env = [Fin (2 ^ 53 - 1)] \<and>
     arr_get (clamp_parameters (var_parLen env) (var_minValues env) (var_maxValues env)
                [Fin 7]) 0 = Fin 7 \<and>
     arr_get (clamp_parameters (var_parLen env) (var_minValues env) (var_maxValues env)
                [Fin (2 ^ 60)]) 0 = Fin (2 ^ 53 - 1)"
proof -
  let ?o = "damping_only (Fin 1)"
  obtain env s0 where i: "lm_init first_parameter two_points constant_model ?o = Inr (env, s0)"
    by (simp add: init_defs ex_defs)
  have p: "parameters s0 = [Fin 1]"
    by (simp add: lm_init_state(5)[OF i] ex_defs)
  have pl: "var_parLen env = 1"
    by (simp add: lm_init_locals(4)[OF i] p)
  have n: "minValues ?o = None" "maxValues ?o = None"
    by (simp_all add: damping_only_def)
  note T = default_bounds_safe_integers[OF i n]
  have b: "var_minValues env = [Fin (- (2 ^ 53 - 1))] \<and> var_maxValues env = [Fin (2 ^ 53 - 1)]"
    using T by (simp add: pl)
  have "0 < var_parLen env \<and> arr_get [Fin 7] 0 = Fin 7"
    by (simp add: pl arr_get_def)
  with T have v7: "arr_get (clamp_parameters (var_parLen env) (var_minValues env)
       (var_maxValues env) [Fin 7]) 0 = Fin (min (max (- (2 ^ 53 - 1)) 7) (2 ^ 53 - 1))"
    by blast
  have "0 < var_parLen env \<and> arr_get [Fin (2 ^ 60)] 0 = Fin (2 ^ 60)"
    by (simp add: pl arr_get_def)
  with T have v60: "arr_get (clamp_parameters (var_parLen env) (var_minValues env)
       (var_maxValues env) [Fin (2 ^ 60)]) 0 = Fin (min (max (- (2 ^ 53 - 1)) (2 ^ 60)) (2 ^ 53 - 1))"
    by blast
  from i b v7 v60 show ?thesis by simp
qed

text \<open>
  The claim as it stands fails: the step gives the finite parameter \<open>2^60\<close>, and the
  default clamp returns \<open>2^53 - 1\<close> in its place.
\<close>

theorem default_clamp_alters_finite_value:
  "scale_step two_points [Fin 1] (Fin (2 ^ 60)) (Fin (1 / 10)) (fn_apply constant_model) =
     [Fin (2 ^ 60)] \<and>
   levenbergMarquardt exact_arithmetic first_parameter scale_step two_points constant_model
     ((damping_only (Fin (2 ^ 60)))\<lparr>maxIterations := Some (Fin 1)\<rparr>) =
     Some (Inr (\<lparr>parameterValues = [Fin (2 ^ 53 - 1)], parameterError = Fin (2 ^ 53 - 1),
                  iterations = 1\<rparr>, [])) \<and>
   Fin (2 ^ 53 - 1) \<noteq> Fin (2 ^ 60)"
proof (intro conjI)
  show "scale_step two_points [Fin 1] (Fin (2 ^ 60)) (Fin (1 / 10)) (fn_apply constant_model) =
     [Fin (2 ^ 60)]"
    by (simp add: scale_step_def)
next
  let ?A = exact_arithmetic and ?E = first_parameter and ?S = scale_step
  let ?o = "(damping_only (Fin (2 ^ 60)))\<lparr>maxIterations := Some (Fin 1)\<rparr>"
  obtain env s0 where i: "lm_init ?E two_points constant_model ?o = Inr (env, s0)"
    by (simp add: init_defs ex_defs)
  note L = lm_init_state[OF i] lm_init_locals[OF i] lm_init_bounds[OF i]
  have p: "parameters s0 = [Fin 1]" by (simp add: L ex_defs)
  have e: "error s0 = Fin 1" by (simp add: L ex_defs)
  have h0: "lm_head ?A ?E ?S env 0 s0 = Some s0" by simp
  have r0: "running env s0" by (simp add: running_def e L damping_only_def)
  have u0: "lm_update ?A ?E ?S env (parameters s0) = ([Fin (2 ^ 53 - 1)], Fin (2 ^ 53 - 1))"
    by (simp add: p L ex_defs)
  have n0: "\<not> isNaN (Fin (2 ^ 53 - 1))" by simp
  note h1 = lm_head_next[OF h0 r0 u0 n0]
  let ?h = "s0\<lparr>parameters := [Fin (2 ^ 53 - 1)], error := Fin (2 ^ 53 - 1),
                 console := (if var_logAfterIteration env
                             then console s0 @ [(Fin (2 ^ 53 - 1), [Fin (2 ^ 53 - 1)])]
                             else console s0),
                 converged := js_le (Fin (2 ^ 53 - 1)) (var_errorTolerance env),
                 iteration := Suc (iteration s0)\<rparr>"
  have "\<not> running env ?h" by (simp add: running_def L damping_only_def)
  from lm_ends_at_test[OF i h1 this]
  show "levenbergMarquardt ?A ?E ?S two_points constant_model ?o =
     Some (Inr (\<lparr>parameterValues = [Fin (2 ^ 53 - 1)], parameterError = Fin (2 ^ 53 - 1),
                  iterations = 1\<rparr>, []))"
    by (simp add: L damping_only_def)
qed simp

section \<open>The coefficients of the alignment\<close>




section \<open>The console\<close>










end
